theory Spec2Isabelle
  imports Complex_Main "HOL-Library.Sublist"
begin

section \<open>Browser objects shared by the recording surfaces\<close>

text \<open>
  The components are React function components: their state is the \<open>useState\<close> cells and
  the \<open>useRef\<close> cells, and every handler is a function from the state before an event to
  the state after it. The browser objects the handlers reach through closures and refs
  (media streams, interval timers, audio elements, object URLs, the requests sent with
  \<open>fetch\<close>) are kept in stores inside the state, addressed by their position.
\<close>

text \<open>A \<open>Blob\<close>: its bytes and its MIME type; \<open>blob.size\<close> is the number of bytes.
  A \<open>File\<close> is a \<open>Blob\<close>.\<close>

record blob =
  blob_bytes :: "nat list"
  blob_type :: string

definition blob_size :: "blob \<Rightarrow> nat" where
  "blob_size b = length (blob_bytes b)"

text \<open>\<open>new Blob(chunks, { type })\<close>: the concatenation of the chunks, in order.\<close>

definition new_Blob :: "blob list \<Rightarrow> string \<Rightarrow> blob" where
  "new_Blob chunks ty = \<lparr>blob_bytes = concat (map blob_bytes chunks), blob_type = ty\<rparr>"

text \<open>A \<open>MediaStream\<close> returned by \<open>getUserMedia\<close> with audio constraints: one microphone
  track. \<open>track_stops\<close> counts the calls of \<open>track.stop()\<close> on it.\<close>

record stream =
  track_live :: bool
  track_stops :: nat

text \<open>\<open>stream.getTracks().forEach(track => track.stop())\<close> on the stream at position \<open>i\<close>.\<close>

definition stop_tracks :: "nat \<Rightarrow> stream list \<Rightarrow> stream list" where
  "stop_tracks i ss =
     (if i < length ss
      then ss[i := \<lparr>track_live = False, track_stops = track_stops (ss ! i) + 1\<rparr>]
      else ss)"

text \<open>A \<open>MediaRecorder\<close>: the stream it records, whether its state is \<open>recording\<close>, and
  the encoded bytes it has gathered since \<open>start()\<close> (started without a timeslice, it
  delivers them in one \<open>dataavailable\<close> event when it is stopped).\<close>

record recorder =
  rec_stream :: nat
  rec_active :: bool
  rec_data :: "nat list"

text \<open>An interval timer created by \<open>setInterval\<close>. Its callback is a closure: it calls the
  \<open>stopRecording\<close> of the render that created it, whose \<open>isRecording\<close> is the value of that
  render (\<open>timer_isRecording\<close>), and compares with the maximum duration of that render.\<close>

record timer =
  timer_live :: bool
  timer_isRecording :: bool
  timer_max :: nat

definition clearInterval :: "nat \<Rightarrow> timer list \<Rightarrow> timer list" where
  "clearInterval i ts =
     (if i < length ts then ts[i := (ts ! i)\<lparr>timer_live := False\<rparr>] else ts)"

text \<open>An object URL made by \<open>URL.createObjectURL\<close>, and an \<open>HTMLAudioElement\<close>: its \<open>src\<close>
  (an object URL, or none when it is the empty string) and whether it is playing.\<close>

record objurl =
  url_blob :: blob
  url_revoked :: bool

datatype playback = Playing | Paused | Ended

record audio =
  audio_src :: "nat option"
  audio_status :: playback

definition revokeObjectURL :: "nat \<Rightarrow> objurl list \<Rightarrow> objurl list" where
  "revokeObjectURL i us =
     (if i < length us then us[i := (us ! i)\<lparr>url_revoked := True\<rparr>] else us)"

text \<open>\<open>audio.pause()\<close> on the element at position \<open>i\<close>.\<close>

definition pause_element :: "nat \<Rightarrow> audio list \<Rightarrow> audio list" where
  "pause_element i as =
     (if i < length as \<and> audio_status (as ! i) = Playing
      then as[i := (as ! i)\<lparr>audio_status := Paused\<rparr>]
      else as)"


text \<open>What \<open>getUserMedia\<close> and the \<open>MediaRecorder\<close> constructor do when recording is
  started: the promise rejects, or the stream is obtained and the constructor throws
  (MIME type not supported), or both succeed.\<close>

datatype acquisition = MicRejected | RecorderUnsupported | MicGranted

text \<open>The rubric of a conversational-feedback task (\<open>FeedbackRubric\<close>, as the viewer reads
  it: \<open>criterion.name\<close>, \<open>criterion.description\<close>, \<open>criterion.maxScore\<close>).\<close>

record feedback_criterion =
  fc_name :: string
  fc_description :: string
  fc_maxScore :: real

type_synonym feedback_rubric = "feedback_criterion list"

text \<open>The requests the components send with \<open>fetch\<close>: the upload of a file (the blob and
  the \<open>content_type\<close> field; the file name is a constant), the evaluation of an uploaded
  answer (\<open>audio_uuid\<close>, \<open>question\<close>, \<open>max_duration\<close>), the analysis of a recording (the
  blob, \<open>taskId\<close>, \<open>userId\<close>, the rubric), and the fetch of a task.\<close>

datatype request =
    UploadLocal blob string
  | InterviewEvaluate "string option" string nat
  | Analyze blob string string feedback_rubric
  | GetTask string

text \<open>What a \<open>fetch\<close> followed by \<open>response.json()\<close> can give: the fetch rejects, the
  response is not \<open>ok\<close> (with its status), the body is not JSON, or a JSON value.\<close>

datatype 'a response = FetchRejected | NotOk nat | BadJson | OkJson 'a

record network =
  net :: "request list"

record surface = network +
  streams :: "stream list"
  timers :: "timer list"
  audios :: "audio list"
  urls :: "objurl list"
  isRecording :: bool
  audioBlob :: "blob option"
  isPlaying :: bool
  mediaRecorderRef :: "recorder option"
  recordingIntervalRef :: "nat option"

section \<open>AudioInputComponent\<close>

text \<open>
  \<open>maxDuration\<close> is the prop. \<open>startRecording\<close> is memoised with \<open>useCallback\<close> on
  \<open>[maxDuration]\<close>, so the closure in use is the one of the last render in which
  \<open>maxDuration\<close> changed (the first render, if it never did); \<open>memo_isRecording\<close> is the
  value \<open>isRecording\<close> had in that render, which is the value the \<open>stopRecording\<close> captured
  by that closure tests.
\<close>

record aic_state = surface +
  recordingTime :: nat
  currentTime :: real
  duration :: real
  showDeleteConfirmation :: bool
  audioChunksRef :: "blob list"
  audioElementRef :: "nat option"
  maxDuration :: nat
  memo_isRecording :: bool

definition mount :: "nat \<Rightarrow> aic_state" where
  "mount n =
     \<lparr>net = [], streams = [], timers = [], audios = [], urls = [],
      isRecording = False, audioBlob = None, isPlaying = False,
      mediaRecorderRef = None, recordingIntervalRef = None,
      recordingTime = 0, currentTime = 0, duration = 0,
      showDeleteConfirmation = False, audioChunksRef = [], audioElementRef = None,
      maxDuration = n, memo_isRecording = False\<rparr>"


text \<open>\<open>mediaRecorderRef.current.stop()\<close>. An inactive recorder fires no event. An active
  one becomes inactive and fires \<open>dataavailable\<close> with what it gathered (the handler
  keeps the chunk if \<open>event.data.size > 0\<close>), then \<open>stop\<close>, whose handler builds the
  artifact from \<open>audioChunksRef.current\<close>, stores it with \<open>setAudioBlob\<close> and stops the
  tracks of the stream of that recording.\<close>

definition recorder_stop :: "aic_state \<Rightarrow> aic_state" where
  "recorder_stop s =
     (case mediaRecorderRef s of
        None \<Rightarrow> s
      | Some r \<Rightarrow>
          if \<not> rec_active r then s
          else
            let data = \<lparr>blob_bytes = rec_data r, blob_type = ''audio/webm;codecs=opus''\<rparr>;
                chunks = (if blob_size data > 0 then audioChunksRef s @ [data]
                          else audioChunksRef s)
            in s\<lparr>mediaRecorderRef := Some (r\<lparr>rec_active := False, rec_data := []\<rparr>),
                 audioChunksRef := chunks,
                 audioBlob := Some (new_Blob chunks ''audio/webm''),
                 streams := stop_tracks (rec_stream r) (streams s)\<rparr>)"

text \<open>\<open>stopRecording\<close>; \<open>captured\<close> is the \<open>isRecording\<close> of the render whose closure is
  called (the hook is memoised on \<open>[isRecording]\<close>).\<close>

definition stopRecording :: "bool \<Rightarrow> aic_state \<Rightarrow> aic_state" where
  "stopRecording captured s =
     (if mediaRecorderRef s \<noteq> None \<and> captured then
        let s1 = (recorder_stop s)\<lparr>isRecording := False\<rparr>
        in (case recordingIntervalRef s1 of
              None \<Rightarrow> s1
            | Some i \<Rightarrow> s1\<lparr>timers := clearInterval i (timers s1),
                            recordingIntervalRef := None\<rparr>)
      else s)"

text \<open>The Stop button of the current render: its \<open>stopRecording\<close> has the current
  \<open>isRecording\<close>.\<close>

definition click_stopRecording :: "aic_state \<Rightarrow> aic_state" where
  "click_stopRecording s = stopRecording (isRecording s) s"

definition startRecording :: "acquisition \<Rightarrow> aic_state \<Rightarrow> aic_state" where
  "startRecording env s =
     (case env of
        MicRejected \<Rightarrow> s
      | RecorderUnsupported \<Rightarrow>
          s\<lparr>streams := streams s @ [\<lparr>track_live = True, track_stops = 0\<rparr>]\<rparr>
      | MicGranted \<Rightarrow>
          s\<lparr>streams := streams s @ [\<lparr>track_live = True, track_stops = 0\<rparr>],
            mediaRecorderRef :=
              Some \<lparr>rec_stream = length (streams s), rec_active = True, rec_data = []\<rparr>,
            audioChunksRef := [],
            isRecording := True,
            recordingTime := 0,
            timers := timers s @
              [\<lparr>timer_live = True, timer_isRecording = memo_isRecording s,
                timer_max = maxDuration s\<rparr>],
            recordingIntervalRef := Some (length (timers s))\<rparr>)"

text \<open>The microphone delivers encoded bytes to the recorder while it is recording.\<close>

definition capture :: "nat list \<Rightarrow> aic_state \<Rightarrow> aic_state" where
  "capture bytes s =
     (case mediaRecorderRef s of
        None \<Rightarrow> s
      | Some r \<Rightarrow>
          if rec_active r
          then s\<lparr>mediaRecorderRef := Some (r\<lparr>rec_data := rec_data r @ bytes\<rparr>)\<rparr>
          else s)"

text \<open>One firing of the interval timer at position \<open>i\<close>; a cleared timer does not fire.
  The updater computes \<open>newTime = prev + 1\<close>; at \<open>newTime >= maxDuration\<close> it calls the
  captured \<open>stopRecording\<close> and returns \<open>maxDuration\<close>.\<close>

definition tick :: "nat \<Rightarrow> aic_state \<Rightarrow> aic_state" where
  "tick i s =
     (if i < length (timers s) \<and> timer_live (timers s ! i) then
        let t = timers s ! i; newTime = recordingTime s + 1
        in if newTime \<ge> timer_max t
           then (stopRecording (timer_isRecording t) s)\<lparr>recordingTime := timer_max t\<rparr>
           else s\<lparr>recordingTime := newTime\<rparr>
      else s)"

text \<open>The cleanup of the mount effect ("Clean up on unmount").\<close>

definition unmount :: "aic_state \<Rightarrow> aic_state" where
  "unmount s =
     (let s1 = (case recordingIntervalRef s of
                  None \<Rightarrow> s
                | Some i \<Rightarrow> s\<lparr>timers := clearInterval i (timers s)\<rparr>)
      in (case audioElementRef s1 of
            None \<Rightarrow> s1
          | Some a \<Rightarrow> s1\<lparr>audios := pause_element a (audios s1),
                          audioElementRef := None\<rparr>))"






text \<open>\<open>handleFileUpload\<close>; the argument is \<open>event.target.files?.[0]\<close>.\<close>

definition handleFileUpload :: "blob option \<Rightarrow> aic_state \<Rightarrow> aic_state" where
  "handleFileUpload file s =
     (case file of
        None \<Rightarrow> s
      | Some f \<Rightarrow>
          if prefix ''audio/'' (blob_type f)
          then s\<lparr>audioBlob := Some f, recordingTime := 0\<rparr>
          else s)"









section \<open>ConversationalFeedbackViewer\<close>

text \<open>The result of \<open>/conversational-feedback/analyze\<close> (\<open>FeedbackResult\<close>) and the task
  configuration (\<open>ConversationalFeedbackConfig\<close>; the prompt is only displayed).\<close>

record criteria_score =
  crit_name :: string
  crit_score :: real
  crit_maxScore :: real
  crit_feedback :: string

record feedback_body =
  strengths :: "string list"
  improvements :: "string list"
  deliverySuggestions :: "string list"
  overallScore :: real
  criteriaScores :: "criteria_score list"

record feedback_result =
  transcription :: string
  fr_feedback :: feedback_body

text \<open>The messages the viewer stores with \<open>setError\<close>: the literal ones, and the
  \<open>message\<close> of an \<open>Error\<close> thrown by the browser (a rejected \<open>fetch\<close>, a body that is not
  JSON), whose text is the browser's.\<close>

datatype error_message =
    FailedToFetchTask nat
  | ConfigurationNotFound
  | BrowserMessage
  | FailedToStartRecording
  | FailedToProcessRecording

record cf_config =
  cfg_maxDuration :: nat
  cfg_rubric :: feedback_rubric

text \<open>
  The handlers of this component are created anew in every render, so a handler called by
  a button reads the current state. \<open>audioChunks\<close> is the local array of the
  \<open>startRecording\<close> call that made the recorder in \<open>mediaRecorderRef\<close>. \<open>taskId\<close>, \<open>userId\<close>,
  \<open>viewOnly\<close> and \<open>onMarkComplete\<close> (given or not) are props; \<open>markComplete\<close> counts the
  calls of \<open>onMarkComplete\<close>. The admin view is not modelled.
\<close>

record cfv_state = surface +
  config :: "cf_config option"
  isLoading :: bool
  error :: "error_message option"
  recordingDuration :: nat
  isProcessing :: bool
  feedback :: "feedback_result option"
  isSubmitted :: bool
  audioRef :: "nat option"
  audioUrlRef :: "nat option"
  audioChunks :: "blob list"
  taskId :: string
  userId :: string
  viewOnly :: bool
  onMarkComplete :: bool
  markComplete :: nat

definition mount_cfv :: "string \<Rightarrow> string \<Rightarrow> bool \<Rightarrow> bool \<Rightarrow> cfv_state" where
  "mount_cfv task user view_only on_complete =
     \<lparr>net = [], streams = [], timers = [], audios = [], urls = [],
      isRecording = False, audioBlob = None, isPlaying = False,
      mediaRecorderRef = None, recordingIntervalRef = None,
      config = None, isLoading = True, error = None, recordingDuration = 0,
      isProcessing = False, feedback = None, isSubmitted = False,
      audioRef = None, audioUrlRef = None, audioChunks = [],
      taskId = task, userId = user, viewOnly = view_only,
      onMarkComplete = on_complete, markComplete = 0\<rparr>"

text \<open>\<open>loadTaskConfig\<close>, to its end; the JSON of the response is reduced to its
  \<open>conversational_feedback_config\<close>, if it has one.\<close>

definition loadTaskConfig :: "cf_config option response \<Rightarrow> cfv_state \<Rightarrow> cfv_state" where
  "loadTaskConfig resp s =
     (let s1 = s\<lparr>net := net s @ [GetTask (taskId s)], isLoading := True\<rparr>
      in (case resp of
            OkJson (Some c) \<Rightarrow> s1\<lparr>config := Some c, isLoading := False\<rparr>
          | OkJson None \<Rightarrow> s1\<lparr>error := Some ConfigurationNotFound, isLoading := False\<rparr>
          | NotOk st \<Rightarrow> s1\<lparr>error := Some (FailedToFetchTask st), isLoading := False\<rparr>
          | _ \<Rightarrow> s1\<lparr>error := Some BrowserMessage, isLoading := False\<rparr>))"

text \<open>\<open>config?.maxDuration || 120\<close>.\<close>

definition max_seconds :: "cf_config option \<Rightarrow> nat" where
  "max_seconds c =
     (case c of
        None \<Rightarrow> 120
      | Some cfg \<Rightarrow> if cfg_maxDuration cfg = 0 then 120 else cfg_maxDuration cfg)"

text \<open>\<open>mediaRecorderRef.current.stop()\<close>: as in the other component, but every chunk is
  kept, and the \<open>stop\<close> handler also replaces the object URL of the artifact.\<close>

definition recorder_stop_cfv :: "cfv_state \<Rightarrow> cfv_state" where
  "recorder_stop_cfv s =
     (case mediaRecorderRef s of
        None \<Rightarrow> s
      | Some r \<Rightarrow>
          if \<not> rec_active r then s
          else
            let chunks = audioChunks s @ [\<lparr>blob_bytes = rec_data r, blob_type = ''audio/webm''\<rparr>];
                b = new_Blob chunks ''audio/webm'';
                us = (case audioUrlRef s of
                        None \<Rightarrow> urls s
                      | Some u \<Rightarrow> revokeObjectURL u (urls s))
            in s\<lparr>mediaRecorderRef := Some (r\<lparr>rec_active := False, rec_data := []\<rparr>),
                 audioChunks := chunks,
                 audioBlob := Some b,
                 urls := us @ [\<lparr>url_blob = b, url_revoked = False\<rparr>],
                 audioUrlRef := Some (length us),
                 streams := stop_tracks (rec_stream r) (streams s)\<rparr>)"

text \<open>\<open>stopRecording\<close>; \<open>captured\<close> is the \<open>isRecording\<close> of the render whose closure is
  called. The interval is cleared; the ref keeps its identifier.\<close>

definition stopRecording_cfv :: "bool \<Rightarrow> cfv_state \<Rightarrow> cfv_state" where
  "stopRecording_cfv captured s =
     (if mediaRecorderRef s \<noteq> None \<and> captured then
        let s1 = (recorder_stop_cfv s)\<lparr>isRecording := False\<rparr>
        in (case recordingIntervalRef s1 of
              None \<Rightarrow> s1
            | Some i \<Rightarrow> s1\<lparr>timers := clearInterval i (timers s1)\<rparr>)
      else s)"

definition click_stopRecording_cfv :: "cfv_state \<Rightarrow> cfv_state" where
  "click_stopRecording_cfv s = stopRecording_cfv (isRecording s) s"

text \<open>\<open>startRecording\<close>, called by the button of the current render: the timer callback
  it creates captures the \<open>stopRecording\<close> and the \<open>config\<close> of that render.\<close>

definition startRecording_cfv :: "acquisition \<Rightarrow> cfv_state \<Rightarrow> cfv_state" where
  "startRecording_cfv env s =
     (case env of
        MicRejected \<Rightarrow> s\<lparr>error := Some FailedToStartRecording\<rparr>
      | RecorderUnsupported \<Rightarrow>
          s\<lparr>streams := streams s @ [\<lparr>track_live = True, track_stops = 0\<rparr>],
            error := Some FailedToStartRecording\<rparr>
      | MicGranted \<Rightarrow>
          s\<lparr>streams := streams s @ [\<lparr>track_live = True, track_stops = 0\<rparr>],
            mediaRecorderRef :=
              Some \<lparr>rec_stream = length (streams s), rec_active = True, rec_data = []\<rparr>,
            audioChunks := [],
            isRecording := True,
            recordingDuration := 0,
            timers := timers s @
              [\<lparr>timer_live = True, timer_isRecording = isRecording s,
                timer_max = max_seconds (config s)\<rparr>],
            recordingIntervalRef := Some (length (timers s))\<rparr>)"

definition capture_cfv :: "nat list \<Rightarrow> cfv_state \<Rightarrow> cfv_state" where
  "capture_cfv bytes s =
     (case mediaRecorderRef s of
        None \<Rightarrow> s
      | Some r \<Rightarrow>
          if rec_active r
          then s\<lparr>mediaRecorderRef := Some (r\<lparr>rec_data := rec_data r @ bytes\<rparr>)\<rparr>
          else s)"

text \<open>One firing of the interval timer at position \<open>i\<close>: the updater calls the captured
  \<open>stopRecording\<close> at \<open>newDuration >= maximum\<close> and returns \<open>newDuration\<close>.\<close>

definition tick_cfv :: "nat \<Rightarrow> cfv_state \<Rightarrow> cfv_state" where
  "tick_cfv i s =
     (if i < length (timers s) \<and> timer_live (timers s ! i) then
        let t = timers s ! i; newDuration = recordingDuration s + 1
        in if newDuration \<ge> timer_max t
           then (stopRecording_cfv (timer_isRecording t) s)\<lparr>recordingDuration := newDuration\<rparr>
           else s\<lparr>recordingDuration := newDuration\<rparr>
      else s)"

text \<open>The cleanup of the mount effect.\<close>

definition unmount_cfv :: "cfv_state \<Rightarrow> cfv_state" where
  "unmount_cfv s =
     (let s1 = (case audioUrlRef s of
                  None \<Rightarrow> s
                | Some u \<Rightarrow> s\<lparr>urls := revokeObjectURL u (urls s)\<rparr>)
      in (case recordingIntervalRef s1 of
            None \<Rightarrow> s1
          | Some i \<Rightarrow> s1\<lparr>timers := clearInterval i (timers s1)\<rparr>))"












section \<open>InterviewMode\<close>

text \<open>\<open>CriterionScore\<close> (RubricScorecard) and \<open>InterviewEvaluation\<close>.\<close>

record criterion_score =
  cs_criterion :: string
  cs_score :: real
  cs_feedback :: string
  cs_transcript_references :: "string list"

record timestamp_range =
  ts_start :: real
  ts_end :: real
  ts_word :: string

record actionable_tip =
  tip_title :: string
  tip_description :: string
  tip_transcript_lines :: "string list"
  tip_timestamp_ranges :: "timestamp_range list"
  tip_priority :: nat

record speech_analysis =
  word_count :: nat
  filler_count :: nat
  speaking_rate_wpm :: real
  total_duration :: real
  long_pauses :: "(real \<times> real) list"

record interview_evaluation =
  scores :: "criterion_score list"
  overall_score :: real
  actionable_tips :: "actionable_tip list"
  transcript :: string
  ie_speech_analysis :: speech_analysis
  duration_seconds :: real









section \<open>Playback handles\<close>




section \<open>RubricScorecard\<close>

text \<open>\<open>getScoreColor\<close>, and the children of the score element, \<open>{score.score}/5\<close>: the
  number, then the text \<open>/5\<close>.\<close>

definition getScoreColor :: "real \<Rightarrow> string" where
  "getScoreColor sc =
     (if sc \<ge> 4 then ''text-green-600 bg-green-50 border-green-200''
      else if sc \<ge> 3 then ''text-yellow-600 bg-yellow-50 border-yellow-200''
      else ''text-red-600 bg-red-50 border-red-200'')"

datatype jsx_child = JsxNumber real | JsxText string

definition score_text :: "criterion_score \<Rightarrow> jsx_child list" where
  "score_text sc = [JsxNumber (cs_score sc), JsxText ''/5'']"

section \<open>Normalisation of rubric scores\<close>

text \<open>The two shapes of rubric score the backend returns are the interfaces of the
  sources, \<open>CriterionScore\<close> and the elements of \<open>criteriaScores\<close>; a raw entry is one or
  the other. \<open>criterion\<close> is an entry of the canonical \<open>criteria\<close> sequence of the
  specification.\<close>

datatype raw_score = CriterionShape criterion_score | NameShape criteria_score

record criterion =
  c_name :: string
  c_score :: real
  c_maxScore :: real
  c_feedback :: string
  c_transcriptReferences :: "string list"

text \<open>Modelled from the spec: \<open>EvaluationModel.normalize\<close> on one rubric-score entry. The
  sources have no function that converts one shape of rubric score into another (each
  component renders the shape its endpoint returns), so the projection is written from
  the specification: both known shapes are accepted; name, score and feedback are
  carried over; the transcript references are those of the entry, or none; \<open>maxScore\<close>
  is the entry's, and the fixed scale 5 when the shape has none.\<close>

fun normalize_score :: "raw_score \<Rightarrow> criterion" where
  "normalize_score (CriterionShape r) =
     \<lparr>c_name = cs_criterion r, c_score = cs_score r, c_maxScore = 5,
      c_feedback = cs_feedback r, c_transcriptReferences = cs_transcript_references r\<rparr>"
| "normalize_score (NameShape r) =
     \<lparr>c_name = crit_name r, c_score = crit_score r, c_maxScore = crit_maxScore r,
      c_feedback = crit_feedback r, c_transcriptReferences = []\<rparr>"

text \<open>Modelled from the spec: \<open>EvaluationModel.normalize\<close> on the sequence of rubric scores
  of a payload, which the sources do not have either: the canonical \<open>criteria\<close> sequence
  is the projection of the entries, in their order.\<close>

definition normalize_criteria :: "raw_score list \<Rightarrow> criterion list" where
  "normalize_criteria raws = map normalize_score raws"

section \<open>Properties\<close>

subsection \<open>The duration timer\<close>

lemma tick_after_start:
  "tick 0 ((startRecording MicGranted (mount n))\<lparr>recordingTime := m\<rparr>)
     = (startRecording MicGranted (mount n))
         \<lparr>recordingTime := (if m + 1 \<ge> n then n else m + 1)\<rparr>"
  by (simp add: tick_def startRecording_def mount_def stopRecording_def Let_def)

lemma ticks_after_start:
  "(tick 0 ^^ k) (startRecording MicGranted (mount n))
     = (startRecording MicGranted (mount n))\<lparr>recordingTime := min k n\<rparr>"
proof (induction k)
  case 0
  show ?case by (simp add: startRecording_def mount_def)
next
  case (Suc k)
  have "(if min k n + 1 \<ge> n then n else min k n + 1) = min (Suc k) n"
    by auto
  with Suc show ?case by (simp add: tick_after_start)
qed

lemma tick_cfv_after_start:
  "\<not> isRecording c \<Longrightarrow> timers c = [] \<Longrightarrow>
   tick_cfv 0 ((startRecording_cfv MicGranted c)\<lparr>recordingDuration := m\<rparr>)
     = (startRecording_cfv MicGranted c)\<lparr>recordingDuration := m + 1\<rparr>"
  by (simp add: tick_cfv_def startRecording_cfv_def stopRecording_cfv_def Let_def)

lemma ticks_cfv_after_start:
  assumes "\<not> isRecording c" and "timers c = []"
  shows "(tick_cfv 0 ^^ k) (startRecording_cfv MicGranted c)
           = (startRecording_cfv MicGranted c)\<lparr>recordingDuration := k\<rparr>"
proof (induction k)
  case 0
  show ?case by (simp add: startRecording_cfv_def)
next
  case (Suc k)
  with assms show ?case by (simp add: tick_cfv_after_start)
qed

lemma loaded_idle:
  "\<not> isRecording (loadTaskConfig resp (mount_cfv t u v oc)) \<and>
   timers (loadTaskConfig resp (mount_cfv t u v oc)) = [] \<and>
   streams (loadTaskConfig resp (mount_cfv t u v oc)) = [] \<and>
   audioBlob (loadTaskConfig resp (mount_cfv t u v oc)) = None"
  by (simp add: loadTaskConfig_def mount_cfv_def Let_def split: response.splits option.splits)

text \<open>
  C1 (the code does not do what the claim says). A recording is started after mount
  with the microphone granted and is never stopped by hand; the timer fires \<open>k\<close> times,
  for any \<open>k\<close>. In the audio input the elapsed time is \<open>min k n\<close>, so it stops at the
  maximum \<open>n\<close>, but the session is still recording, has no artifact and its timer is
  still live: the \<open>stopRecording\<close> the timer calls tests the \<open>isRecording\<close> of the render
  that created it, which is false. In the conversational-feedback viewer the same
  happens and the elapsed time is \<open>k\<close>, beyond any maximum.
\<close>

theorem timer_never_stops_recording:
  "isRecording ((tick 0 ^^ k) (startRecording MicGranted (mount n))) \<and>
   audioBlob ((tick 0 ^^ k) (startRecording MicGranted (mount n))) = None \<and>
   timers ((tick 0 ^^ k) (startRecording MicGranted (mount n)))
     = [\<lparr>timer_live = True, timer_isRecording = False, timer_max = n\<rparr>] \<and>
   streams ((tick 0 ^^ k) (startRecording MicGranted (mount n)))
     = [\<lparr>track_live = True, track_stops = 0\<rparr>] \<and>
   recordingTime ((tick 0 ^^ k) (startRecording MicGranted (mount n))) = min k n \<and>
   isRecording ((tick_cfv 0 ^^ k)
      (startRecording_cfv MicGranted (loadTaskConfig (OkJson (Some cfg)) (mount_cfv t u v oc)))) \<and>
   audioBlob ((tick_cfv 0 ^^ k)
      (startRecording_cfv MicGranted (loadTaskConfig (OkJson (Some cfg)) (mount_cfv t u v oc))))
     = None \<and>
   streams ((tick_cfv 0 ^^ k)
      (startRecording_cfv MicGranted (loadTaskConfig (OkJson (Some cfg)) (mount_cfv t u v oc))))
     = [\<lparr>track_live = True, track_stops = 0\<rparr>] \<and>
   recordingDuration ((tick_cfv 0 ^^ k)
      (startRecording_cfv MicGranted (loadTaskConfig (OkJson (Some cfg)) (mount_cfv t u v oc))))
     = k"
proof -
  have a: "(tick 0 ^^ k) (startRecording MicGranted (mount n))
             = (startRecording MicGranted (mount n))\<lparr>recordingTime := min k n\<rparr>"
    by (rule ticks_after_start)
  have c: "(tick_cfv 0 ^^ k)
             (startRecording_cfv MicGranted (loadTaskConfig (OkJson (Some cfg)) (mount_cfv t u v oc)))
           = (startRecording_cfv MicGranted (loadTaskConfig (OkJson (Some cfg)) (mount_cfv t u v oc)))
               \<lparr>recordingDuration := k\<rparr>"
    using loaded_idle by (intro ticks_cfv_after_start) auto
  show ?thesis
    unfolding a c
    by (simp add: startRecording_def mount_def startRecording_cfv_def loaded_idle)
qed

subsection \<open>Release of the microphone\<close>

lemma unmount_streams: "streams (unmount s) = streams s"
  by (simp add: unmount_def Let_def split: option.splits)

lemma unmount_cfv_streams: "streams (unmount_cfv c) = streams c"
  by (simp add: unmount_cfv_def Let_def split: option.splits)

text \<open>
  C3 (the code does not do what the claim says). The cleanup that runs when a surface
  is unmounted never touches a media stream, in either component; so after a recording
  is started and the surface is unmounted, the microphone track acquired by that
  recording is still live and \<open>track.stop()\<close> has been called on it zero times. The same
  holds on the path where the stream is acquired and the recorder cannot be made.
\<close>

theorem unmount_leaves_microphone_live:
  "streams (unmount s) = streams s \<and>
   streams (unmount_cfv c) = streams c \<and>
   streams (unmount (startRecording MicGranted (mount n)))
     = [\<lparr>track_live = True, track_stops = 0\<rparr>] \<and>
   streams (unmount_cfv (startRecording_cfv MicGranted (mount_cfv t u v oc)))
     = [\<lparr>track_live = True, track_stops = 0\<rparr>] \<and>
   streams (startRecording RecorderUnsupported (mount n))
     = [\<lparr>track_live = True, track_stops = 0\<rparr>] \<and>
   mediaRecorderRef (startRecording RecorderUnsupported (mount n)) = None"
  by (simp add: unmount_streams unmount_cfv_streams)
     (simp add: startRecording_def mount_def startRecording_cfv_def mount_cfv_def)

subsection \<open>Stopping twice\<close>

lemma click_stopRecording_recording:
  assumes "isRecording s" and "mediaRecorderRef s = Some r" and "rec_active r"
  shows "click_stopRecording s =
     (let chunks = (if rec_data r \<noteq> []
                    then audioChunksRef s @
                      [\<lparr>blob_bytes = rec_data r, blob_type = ''audio/webm;codecs=opus''\<rparr>]
                    else audioChunksRef s)
      in s\<lparr>mediaRecorderRef := Some (r\<lparr>rec_active := False, rec_data := []\<rparr>),
           audioChunksRef := chunks,
           audioBlob := Some (new_Blob chunks ''audio/webm''),
           streams := stop_tracks (rec_stream r) (streams s),
           isRecording := False,
           timers := (case recordingIntervalRef s of
                        None \<Rightarrow> timers s
                      | Some i \<Rightarrow> clearInterval i (timers s)),
           recordingIntervalRef := None\<rparr>)"
  using assms
  by (cases "recordingIntervalRef s")
     (simp_all add: click_stopRecording_def stopRecording_def recorder_stop_def Let_def
        blob_size_def)

lemma click_stopRecording_cfv_recording:
  assumes "isRecording c" and "mediaRecorderRef c = Some q" and "rec_active q"
  shows "click_stopRecording_cfv c =
     (let chunks = audioChunks c @ [\<lparr>blob_bytes = rec_data q, blob_type = ''audio/webm''\<rparr>];
          us = (case audioUrlRef c of
                  None \<Rightarrow> urls c
                | Some u \<Rightarrow> revokeObjectURL u (urls c))
      in c\<lparr>mediaRecorderRef := Some (q\<lparr>rec_active := False, rec_data := []\<rparr>),
           audioChunks := chunks,
           audioBlob := Some (new_Blob chunks ''audio/webm''),
           urls := us @ [\<lparr>url_blob = new_Blob chunks ''audio/webm'', url_revoked = False\<rparr>],
           audioUrlRef := Some (length us),
           streams := stop_tracks (rec_stream q) (streams c),
           isRecording := False,
           timers := (case recordingIntervalRef c of
                        None \<Rightarrow> timers c
                      | Some i \<Rightarrow> clearInterval i (timers c))\<rparr>)"
  using assms
  by (cases "recordingIntervalRef c")
     (simp_all add: click_stopRecording_cfv_def stopRecording_cfv_def recorder_stop_cfv_def
        Let_def)

lemma stop_tracks_nth:
  "i < length ss \<Longrightarrow>
   stop_tracks i ss ! i = \<lparr>track_live = False, track_stops = track_stops (ss ! i) + 1\<rparr>"
  by (simp add: stop_tracks_def)

lemma clearInterval_twice: "clearInterval i (clearInterval i ts) = clearInterval i ts"
  by (simp add: clearInterval_def)

lemma stopRecording_stopped:
  assumes "isRecording s" and "mediaRecorderRef s = Some r" and "rec_active r"
  shows "stopRecording captured (click_stopRecording s) = click_stopRecording s"
  unfolding click_stopRecording_recording [OF assms]
  by (simp add: stopRecording_def recorder_stop_def Let_def)

lemma stopRecording_cfv_stopped:
  assumes "isRecording c" and "mediaRecorderRef c = Some q" and "rec_active q"
  shows "stopRecording_cfv captured (click_stopRecording_cfv c) = click_stopRecording_cfv c"
proof (cases "recordingIntervalRef c")
  case None
  then show ?thesis
    unfolding click_stopRecording_cfv_recording [OF assms]
    by (simp add: stopRecording_cfv_def recorder_stop_cfv_def Let_def)
next
  case (Some i)
  then show ?thesis
    unfolding click_stopRecording_cfv_recording [OF assms]
    by (simp add: stopRecording_cfv_def recorder_stop_cfv_def Let_def clearInterval_twice)
qed

text \<open>
  C6. A session is being recorded (in either component) and is stopped with the Stop
  button; then \<open>stopRecording\<close> is called again, through the button or through any
  older closure (whatever \<open>isRecording\<close> that closure captured). The second call
  changes nothing, so the artifact after it is the artifact the first call produced,
  and there is one; over both calls the tracks of the stream of the recording are
  stopped by one pass of \<open>track.stop()\<close>, and no other stream is touched.
\<close>

theorem stop_twice_same_artifact_one_release:
  assumes "isRecording s" and "mediaRecorderRef s = Some r" and "rec_active r"
      and "rec_stream r < length (streams s)"
      and "isRecording c" and "mediaRecorderRef c = Some q" and "rec_active q"
      and "rec_stream q < length (streams c)"
  shows "stopRecording captured (click_stopRecording s) = click_stopRecording s \<and>
         click_stopRecording (click_stopRecording s) = click_stopRecording s \<and>
         audioBlob (click_stopRecording (click_stopRecording s))
           = audioBlob (click_stopRecording s) \<and>
         audioBlob (click_stopRecording s) \<noteq> None \<and>
         streams (click_stopRecording (click_stopRecording s))
           = stop_tracks (rec_stream r) (streams s) \<and>
         track_stops (streams (click_stopRecording (click_stopRecording s)) ! rec_stream r)
           = track_stops (streams s ! rec_stream r) + 1 \<and>
         stopRecording_cfv captured (click_stopRecording_cfv c) = click_stopRecording_cfv c \<and>
         click_stopRecording_cfv (click_stopRecording_cfv c) = click_stopRecording_cfv c \<and>
         audioBlob (click_stopRecording_cfv (click_stopRecording_cfv c))
           = audioBlob (click_stopRecording_cfv c) \<and>
         audioBlob (click_stopRecording_cfv c) \<noteq> None \<and>
         streams (click_stopRecording_cfv (click_stopRecording_cfv c))
           = stop_tracks (rec_stream q) (streams c) \<and>
         track_stops (streams (click_stopRecording_cfv (click_stopRecording_cfv c)) ! rec_stream q)
           = track_stops (streams c ! rec_stream q) + 1"
proof -
  have b1: "audioBlob (click_stopRecording s) \<noteq> None"
    and t1: "streams (click_stopRecording s) = stop_tracks (rec_stream r) (streams s)"
    using click_stopRecording_recording [OF assms(1-3)] by (simp_all add: Let_def)
  have i1: "click_stopRecording (click_stopRecording s) = click_stopRecording s"
    unfolding click_stopRecording_def [of "click_stopRecording s"]
    by (rule stopRecording_stopped [OF assms(1-3)])
  have b2: "audioBlob (click_stopRecording_cfv c) \<noteq> None"
    and t2: "streams (click_stopRecording_cfv c) = stop_tracks (rec_stream q) (streams c)"
    using click_stopRecording_cfv_recording [OF assms(5-7)] by (simp_all add: Let_def)
  have i2: "click_stopRecording_cfv (click_stopRecording_cfv c) = click_stopRecording_cfv c"
    unfolding click_stopRecording_cfv_def [of "click_stopRecording_cfv c"]
    by (rule stopRecording_cfv_stopped [OF assms(5-7)])
  show ?thesis
    unfolding i1 i2
    using b1 b2 t1 t2 assms(4) assms(8)
    by (simp add: stop_tracks_nth stopRecording_stopped [OF assms(1-3)]
          stopRecording_cfv_stopped [OF assms(5-7)])
qed

theorem stop_twice_same_artifact_one_release_witness:
  "stopRecording True
     (click_stopRecording (capture [7, 8, 9] (startRecording MicGranted (mount 60))))
     = click_stopRecording (capture [7, 8, 9] (startRecording MicGranted (mount 60))) \<and>
   click_stopRecording
     (click_stopRecording (capture [7, 8, 9] (startRecording MicGranted (mount 60))))
     = click_stopRecording (capture [7, 8, 9] (startRecording MicGranted (mount 60))) \<and>
   audioBlob (click_stopRecording
     (click_stopRecording (capture [7, 8, 9] (startRecording MicGranted (mount 60)))))
     = Some \<lparr>blob_bytes = [7, 8, 9], blob_type = ''audio/webm''\<rparr> \<and>
   streams (click_stopRecording
     (click_stopRecording (capture [7, 8, 9] (startRecording MicGranted (mount 60)))))
     = [\<lparr>track_live = False, track_stops = 1\<rparr>] \<and>
   click_stopRecording_cfv
     (click_stopRecording_cfv
        (capture_cfv [4, 5] (startRecording_cfv MicGranted (mount_cfv ''t'' ''u'' False False))))
     = click_stopRecording_cfv
        (capture_cfv [4, 5] (startRecording_cfv MicGranted (mount_cfv ''t'' ''u'' False False))) \<and>
   audioBlob (click_stopRecording_cfv
     (click_stopRecording_cfv
        (capture_cfv [4, 5] (startRecording_cfv MicGranted (mount_cfv ''t'' ''u'' False False)))))
     = Some \<lparr>blob_bytes = [4, 5], blob_type = ''audio/webm''\<rparr> \<and>
   streams (click_stopRecording_cfv
     (click_stopRecording_cfv
        (capture_cfv [4, 5] (startRecording_cfv MicGranted (mount_cfv ''t'' ''u'' False False)))))
     = [\<lparr>track_live = False, track_stops = 1\<rparr>]"
proof -
  let ?s = "capture [7, 8, 9] (startRecording MicGranted (mount 60))"
  let ?r = "\<lparr>rec_stream = 0, rec_active = True, rec_data = [7, 8, 9 :: nat]\<rparr>"
  let ?c = "capture_cfv [4, 5] (startRecording_cfv MicGranted (mount_cfv ''t'' ''u'' False False))"
  let ?q = "\<lparr>rec_stream = 0, rec_active = True, rec_data = [4, 5 :: nat]\<rparr>"
  have h1: "isRecording ?s" and h2: "mediaRecorderRef ?s = Some ?r" and h3: "rec_active ?r"
    and h4: "rec_stream ?r < length (streams ?s)"
    and ss: "streams ?s = [\<lparr>track_live = True, track_stops = 0\<rparr>]"
    by (simp_all add: capture_def startRecording_def mount_def)
  have h5: "isRecording ?c" and h6: "mediaRecorderRef ?c = Some ?q" and h7: "rec_active ?q"
    and h8: "rec_stream ?q < length (streams ?c)"
    and sc: "streams ?c = [\<lparr>track_live = True, track_stops = 0\<rparr>]"
    by (simp_all add: capture_cfv_def startRecording_cfv_def mount_cfv_def)
  have b1: "audioBlob (click_stopRecording ?s)
              = Some \<lparr>blob_bytes = [7, 8, 9], blob_type = ''audio/webm''\<rparr>"
    unfolding click_stopRecording_recording [OF h1 h2 h3]
    by (simp add: Let_def new_Blob_def capture_def startRecording_def mount_def)
  have b2: "audioBlob (click_stopRecording_cfv ?c)
              = Some \<lparr>blob_bytes = [4, 5], blob_type = ''audio/webm''\<rparr>"
    unfolding click_stopRecording_cfv_recording [OF h5 h6 h7]
    by (simp add: Let_def new_Blob_def capture_cfv_def startRecording_cfv_def mount_cfv_def)
  note th = stop_twice_same_artifact_one_release [OF h1 h2 h3 h4 h5 h6 h7 h8, of True]
  have i0: "stopRecording True (click_stopRecording ?s) = click_stopRecording ?s"
    and i1: "click_stopRecording (click_stopRecording ?s) = click_stopRecording ?s"
    and i2: "click_stopRecording_cfv (click_stopRecording_cfv ?c) = click_stopRecording_cfv ?c"
    and t1: "streams (click_stopRecording (click_stopRecording ?s))
               = stop_tracks (rec_stream ?r) (streams ?s)"
    and t2: "streams (click_stopRecording_cfv (click_stopRecording_cfv ?c))
               = stop_tracks (rec_stream ?q) (streams ?c)"
    using th by blast+
  have u1: "stop_tracks (rec_stream ?r) (streams ?s) = [\<lparr>track_live = False, track_stops = 1\<rparr>]"
    unfolding ss by (simp add: stop_tracks_def)
  have u2: "stop_tracks (rec_stream ?q) (streams ?c) = [\<lparr>track_live = False, track_stops = 1\<rparr>]"
    unfolding sc by (simp add: stop_tracks_def)
  show ?thesis
    using i0 i1 i2 t1 [unfolded u1 i1] t2 [unfolded u2 i2] b1 b2 by simp
qed

subsection \<open>Submission\<close>














subsection \<open>Playback\<close>







































subsection \<open>Rubric scores\<close>

lemma normalize_criteria_nth:
  "i < length raws \<Longrightarrow> normalize_criteria raws ! i = normalize_score (raws ! i)"
  by (simp add: normalize_criteria_def)

text \<open>
  C2. Normalisation maps the sequence of raw rubric scores, entry by entry and in
  order, into the canonical criteria. An entry of either known shape keeps its score
  and its feedback: with score 4 and a feedback that is not empty, the criteria entry
  at its position has score 4 and that feedback.
\<close>

theorem normalize_keeps_score_and_feedback:
  "length (normalize_criteria raws) = length raws \<and>
   (i < length raws \<and> raws ! i = CriterionShape r \<and> cs_score r = 4 \<and> cs_feedback r \<noteq> [] \<longrightarrow>
      c_score (normalize_criteria raws ! i) = 4 \<and>
      c_feedback (normalize_criteria raws ! i) = cs_feedback r \<and>
      c_feedback (normalize_criteria raws ! i) \<noteq> [] \<and>
      c_name (normalize_criteria raws ! i) = cs_criterion r) \<and>
   (i < length raws \<and> raws ! i = NameShape q \<and> crit_score q = 4 \<and> crit_feedback q \<noteq> [] \<longrightarrow>
      c_score (normalize_criteria raws ! i) = 4 \<and>
      c_feedback (normalize_criteria raws ! i) = crit_feedback q \<and>
      c_feedback (normalize_criteria raws ! i) \<noteq> [] \<and>
      c_name (normalize_criteria raws ! i) = crit_name q)"
  by (simp add: normalize_criteria_nth) (simp add: normalize_criteria_def)

theorem normalize_keeps_score_and_feedback_witness:
  "c_score (normalize_criteria
      [CriterionShape \<lparr>cs_criterion = ''content'', cs_score = 4, cs_feedback = ''x'',
                       cs_transcript_references = []\<rparr>,
       NameShape \<lparr>crit_name = ''Content Quality'', crit_score = 4, crit_maxScore = 5,
                  crit_feedback = ''x''\<rparr>] ! 0) = 4 \<and>
   c_feedback (normalize_criteria
      [CriterionShape \<lparr>cs_criterion = ''content'', cs_score = 4, cs_feedback = ''x'',
                       cs_transcript_references = []\<rparr>,
       NameShape \<lparr>crit_name = ''Content Quality'', crit_score = 4, crit_maxScore = 5,
                  crit_feedback = ''x''\<rparr>] ! 0) = ''x'' \<and>
   c_score (normalize_criteria
      [CriterionShape \<lparr>cs_criterion = ''content'', cs_score = 4, cs_feedback = ''x'',
                       cs_transcript_references = []\<rparr>,
       NameShape \<lparr>crit_name = ''Content Quality'', crit_score = 4, crit_maxScore = 5,
                  crit_feedback = ''x''\<rparr>] ! Suc 0) = 4 \<and>
   c_feedback (normalize_criteria
      [CriterionShape \<lparr>cs_criterion = ''content'', cs_score = 4, cs_feedback = ''x'',
                       cs_transcript_references = []\<rparr>,
       NameShape \<lparr>crit_name = ''Content Quality'', crit_score = 4, crit_maxScore = 5,
                  crit_feedback = ''x''\<rparr>] ! Suc 0) = ''x''"
proof -
  let ?r = "\<lparr>cs_criterion = ''content'', cs_score = 4, cs_feedback = ''x'',
             cs_transcript_references = []\<rparr>"
  let ?q = "\<lparr>crit_name = ''Content Quality'', crit_score = 4, crit_maxScore = 5,
             crit_feedback = ''x''\<rparr>"
  let ?raws = "[CriterionShape ?r, NameShape ?q]"
  have a: "0 < length ?raws \<and> ?raws ! 0 = CriterionShape ?r \<and> cs_score ?r = 4 \<and>
           cs_feedback ?r \<noteq> []"
    by simp
  have b: "Suc 0 < length ?raws \<and> ?raws ! Suc 0 = NameShape ?q \<and> crit_score ?q = 4 \<and>
           crit_feedback ?q \<noteq> []"
    by simp
  from normalize_keeps_score_and_feedback [of ?raws 0 ?r ?q] a
  have 1: "c_score (normalize_criteria ?raws ! 0) = 4 \<and>
           c_feedback (normalize_criteria ?raws ! 0) = ''x''"
    by simp
  from normalize_keeps_score_and_feedback [of ?raws "Suc 0" ?r ?q] b
  have 2: "c_score (normalize_criteria ?raws ! Suc 0) = 4 \<and>
           c_feedback (normalize_criteria ?raws ! Suc 0) = ''x''"
    by simp
  from 1 2 show ?thesis by simp
qed

text \<open>
  C9. An entry of the shape with a criterion, a score and a feedback has no maximum
  score of its own: normalisation gives it the maximum 5, wherever it stands in the
  sequence, and the scorecard shows its score, the one normalisation keeps, followed by
  the text \<open>/5\<close>.
\<close>

theorem criterion_shape_is_scored_out_of_five:
  "c_maxScore (normalize_score (CriterionShape r)) = 5 \<and>
   (i < length raws \<and> raws ! i = CriterionShape r \<longrightarrow>
      c_maxScore (normalize_criteria raws ! i) = 5) \<and>
   score_text r = [JsxNumber (c_score (normalize_score (CriterionShape r))), JsxText ''/5'']"
  by (simp add: normalize_criteria_nth score_text_def)

theorem criterion_shape_is_scored_out_of_five_witness:
  "c_maxScore (normalize_criteria
      [NameShape \<lparr>crit_name = ''Content Quality'', crit_score = 3, crit_maxScore = 4,
                  crit_feedback = ''y''\<rparr>,
       CriterionShape \<lparr>cs_criterion = ''content'', cs_score = 4, cs_feedback = ''x'',
                       cs_transcript_references = []\<rparr>] ! Suc 0) = 5 \<and>
   score_text \<lparr>cs_criterion = ''content'', cs_score = 4, cs_feedback = ''x'',
               cs_transcript_references = []\<rparr> = [JsxNumber 4, JsxText ''/5'']"
proof -
  let ?r = "\<lparr>cs_criterion = ''content'', cs_score = 4, cs_feedback = ''x'',
             cs_transcript_references = []\<rparr>"
  let ?raws = "[NameShape \<lparr>crit_name = ''Content Quality'', crit_score = 3, crit_maxScore = 4,
                  crit_feedback = ''y''\<rparr>, CriterionShape ?r]"
  have a: "Suc 0 < length ?raws \<and> ?raws ! Suc 0 = CriterionShape ?r" by simp
  from criterion_shape_is_scored_out_of_five [of ?r "Suc 0" ?raws] a
  show ?thesis by simp
qed

subsection \<open>File upload\<close>

text \<open>
  C10. For every file chosen through the file input: when its MIME type does not start
  with \<open>audio/\<close> the state of the component is left as it was; when it does, the file
  becomes the current audio artifact, the recorded time is reset to zero, and nothing
  else changes. When no file is chosen the state is left as it was, too.
\<close>

theorem handleFileUpload_audio_only:
  "handleFileUpload None s = s \<and>
   (\<not> prefix ''audio/'' (blob_type f) \<longrightarrow> handleFileUpload (Some f) s = s) \<and>
   (prefix ''audio/'' (blob_type f) \<longrightarrow>
      audioBlob (handleFileUpload (Some f) s) = Some f \<and>
      recordingTime (handleFileUpload (Some f) s) = 0 \<and>
      handleFileUpload (Some f) s = s\<lparr>audioBlob := Some f, recordingTime := 0\<rparr>)"
  by (simp add: handleFileUpload_def)

theorem handleFileUpload_audio_only_witness:
  "handleFileUpload (Some \<lparr>blob_bytes = [1, 2], blob_type = ''text/plain''\<rparr>) (mount 60) = mount 60 \<and>
   audioBlob (handleFileUpload (Some \<lparr>blob_bytes = [1, 2], blob_type = ''audio/mpeg''\<rparr>)
                ((mount 60)\<lparr>recordingTime := 7\<rparr>))
     = Some \<lparr>blob_bytes = [1, 2], blob_type = ''audio/mpeg''\<rparr> \<and>
   recordingTime (handleFileUpload (Some \<lparr>blob_bytes = [1, 2], blob_type = ''audio/mpeg''\<rparr>)
                ((mount 60)\<lparr>recordingTime := 7\<rparr>)) = 0"
  using handleFileUpload_audio_only
          [where f = "\<lparr>blob_bytes = [1, 2], blob_type = ''text/plain''\<rparr>" and s = "mount 60"]
        handleFileUpload_audio_only
          [where f = "\<lparr>blob_bytes = [1, 2], blob_type = ''audio/mpeg''\<rparr>"
             and s = "(mount 60)\<lparr>recordingTime := 7\<rparr>"]
  by simp

end
